theory Spec2Isabelle
  imports Main
begin

section \<open>The shell (core/cog-shell.c)\<close>

subsection \<open>Objects\<close>

text \<open>
  Objects of the object system and of the engine (settings, contexts, views, request
  handlers) are known to the shell only through their addresses. An address is a natural
  number, a pointer that may be NULL is an \<open>option\<close>. A web view carries the settings and
  the context it was built with, which \<open>webkit_web_view_get_settings\<close> and
  \<open>webkit_web_view_get_context\<close> read back.
\<close>

type_synonym gpointer = nat

record WebKitWebView =
  view_object :: gpointer
  view_settings :: gpointer
  view_context :: gpointer

text \<open>\<open>RequestHandlerMapEntry\<close>: the handler and the flag of the source.\<close>

record RequestHandlerMapEntry =
  handler :: gpointer
  registered :: bool

text \<open>
  \<open>CogShellPrivate\<close>. The hash table of request handlers is an association list with
  one pair for each key, in the order of insertion; the table that has not been created
  yet is \<open>None\<close>. The field \<open>device_scale_factor\<close> (a double) plays no part in any
  function modelled here and is left out.
\<close>

record CogShellPrivate =
  name :: "string option"
  web_settings :: "gpointer option"
  web_context :: "gpointer option"
  web_view :: "WebKitWebView option"
  config_file :: "gpointer option"
  request_handlers :: "(string \<times> RequestHandlerMapEntry) list option"

text \<open>
  What lies outside the shell: the allocator of objects (\<open>next_object\<close>, the next
  unused address), the calls of \<open>webkit_web_context_register_uri_scheme\<close> made so far, in
  order, each with its context and its scheme, and the directories each context's website
  data manager was created with.
\<close>

record world =
  priv :: CogShellPrivate
  next_object :: gpointer
  registered_uri_schemes :: "(gpointer \<times> string) list"
  website_data :: "(gpointer \<times> string \<times> string) list"

text \<open>
  The process environment read by the shell. \<open>g_build_filename\<close> is the library's path
  join, applied to the elements that precede the terminating NULL of its argument list.
\<close>

record shell_env =
  g_get_prgname :: "string option"
  g_get_user_data_dir :: string
  g_get_user_cache_dir :: string
  g_build_filename :: "string list \<Rightarrow> string"

datatype fatal = Assertion_failed_settings | Assertion_failed_context

definition g_object_new_fresh :: "world \<Rightarrow> gpointer \<times> world" where
  "g_object_new_fresh w = (next_object w, w\<lparr>next_object := Suc (next_object w)\<rparr>)"

text \<open>
  \<open>g_object_new (WEBKIT_TYPE_WEB_VIEW, "settings", s, "web-context", c, NULL)\<close>: a new
  view over the given settings and context; the engine makes its own where NULL is given.
\<close>

definition webkit_web_view_new :: "gpointer option \<Rightarrow> gpointer option \<Rightarrow> world \<Rightarrow> WebKitWebView \<times> world" where
  "webkit_web_view_new s c w =
     (let (v, w1) = g_object_new_fresh w;
          (s', w2) = (case s of Some x \<Rightarrow> (x, w1) | None \<Rightarrow> g_object_new_fresh w1);
          (c', w3) = (case c of Some x \<Rightarrow> (x, w2) | None \<Rightarrow> g_object_new_fresh w2)
      in (\<lparr>view_object = v, view_settings = s', view_context = c'\<rparr>, w3))"

text \<open>Both getters of the engine return NULL when they are not given a view.\<close>

definition webkit_web_view_get_settings :: "WebKitWebView option \<Rightarrow> gpointer option" where
  "webkit_web_view_get_settings v = map_option view_settings v"

definition webkit_web_view_get_context :: "WebKitWebView option \<Rightarrow> gpointer option" where
  "webkit_web_view_get_context v = map_option view_context v"

subsection \<open>Accessors and the default view\<close>

definition cog_shell_get_web_context :: "world \<Rightarrow> gpointer option" where
  "cog_shell_get_web_context w = web_context (priv w)"

definition cog_shell_get_web_settings :: "world \<Rightarrow> gpointer option" where
  "cog_shell_get_web_settings w = web_settings (priv w)"

definition cog_shell_get_web_view :: "world \<Rightarrow> WebKitWebView option" where
  "cog_shell_get_web_view w = web_view (priv w)"

definition cog_shell_get_name :: "world \<Rightarrow> string option" where
  "cog_shell_get_name w = name (priv w)"

definition cog_shell_create_view_base :: "world \<Rightarrow> WebKitWebView option \<times> world" where
  "cog_shell_create_view_base w =
     (let (v, w') = webkit_web_view_new (cog_shell_get_web_settings w) (cog_shell_get_web_context w) w
      in (Some v, w'))"

subsection \<open>The handler table\<close>

definition request_handler_map_entry_new :: "gpointer \<Rightarrow> RequestHandlerMapEntry" where
  "request_handler_map_entry_new h = \<lparr>handler = h, registered = False\<rparr>"

definition request_handler_map_entry_register ::
    "string \<Rightarrow> RequestHandlerMapEntry \<Rightarrow> gpointer option \<Rightarrow> world \<Rightarrow> world" where
  "request_handler_map_entry_register scheme entry context w =
     (case context of
        None \<Rightarrow> w
      | Some c \<Rightarrow>
          if registered entry then w
          else w\<lparr>registered_uri_schemes := registered_uri_schemes w @ [(c, scheme)]\<rparr>)"

definition g_hash_table_lookup :: "(string \<times> 'v) list \<Rightarrow> string \<Rightarrow> 'v option" where
  "g_hash_table_lookup t k = map_of t k"

text \<open>\<open>g_hash_table_insert\<close> replaces the value of a key that is present.\<close>

fun g_hash_table_insert :: "(string \<times> 'v) list \<Rightarrow> string \<Rightarrow> 'v \<Rightarrow> (string \<times> 'v) list" where
  "g_hash_table_insert [] k v = [(k, v)]"
| "g_hash_table_insert ((k', v') # t) k v =
     (if k' = k then (k, v) # t else (k', v') # g_hash_table_insert t k v)"

text \<open>
  \<open>g_hash_table_foreach\<close> calls the function once for each pair of the table. The
  library visits the pairs in the order of the table's slots, which the keys' hashes
  decide; here they are visited in the order of insertion. Nothing below depends on the
  order in which two different keys are visited.
\<close>

fun g_hash_table_foreach ::
    "(string \<times> 'v) list \<Rightarrow> (string \<Rightarrow> 'v \<Rightarrow> 'u \<Rightarrow> world \<Rightarrow> world) \<Rightarrow> 'u \<Rightarrow> world \<Rightarrow> world" where
  "g_hash_table_foreach [] f u w = w"
| "g_hash_table_foreach ((k, v) # t) f u w = g_hash_table_foreach t f u (f k v u w)"

text \<open>
  \<open>cog_shell_set_request_handler\<close>. The two \<open>g_return_if_fail\<close> on the scheme and on the
  handler return with nothing done. The entry found in the table is changed in place,
  which here is writing it back under its key.
\<close>

definition cog_shell_set_request_handler :: "string option \<Rightarrow> gpointer option \<Rightarrow> world \<Rightarrow> world" where
  "cog_shell_set_request_handler scheme h w =
     (case scheme of
        None \<Rightarrow> w
      | Some s \<Rightarrow>
         (case h of
            None \<Rightarrow> w
          | Some hnd \<Rightarrow>
             (let t = (case request_handlers (priv w) of None \<Rightarrow> [] | Some t0 \<Rightarrow> t0);
                  entry = (case g_hash_table_lookup t s of
                             None \<Rightarrow> request_handler_map_entry_new hnd
                           | Some e \<Rightarrow> if handler e \<noteq> hnd then e\<lparr>handler := hnd\<rparr> else e);
                  w1 = w\<lparr>priv := (priv w)\<lparr>request_handlers := Some (g_hash_table_insert t s entry)\<rparr>\<rparr>
              in request_handler_map_entry_register s entry (web_context (priv w1)) w1)))"

subsection \<open>Startup\<close>

text \<open>
  The emission of \<open>create-view\<close>. The signal is \<open>G_SIGNAL_RUN_LAST\<close>: the connected
  listeners run in the order of connection and the class handler
  \<open>cog_shell_create_view_base\<close> runs after them. After each handler the accumulator
  is asked whether the emission goes on; \<open>g_signal_accumulator_first_wins\<close> copies the
  handler's return value and answers no. A listener is given the shell and returns a view
  or NULL.
\<close>

type_synonym listener = "CogShellPrivate \<Rightarrow> WebKitWebView option"

definition g_signal_accumulator_first_wins ::
    "WebKitWebView option \<Rightarrow> WebKitWebView option \<Rightarrow> WebKitWebView option \<times> bool" where
  "g_signal_accumulator_first_wins return_accu handler_return = (handler_return, False)"

fun g_signal_emit_handlers ::
    "(world \<Rightarrow> WebKitWebView option \<times> world) list \<Rightarrow> WebKitWebView option \<Rightarrow> world
       \<Rightarrow> WebKitWebView option \<times> world" where
  "g_signal_emit_handlers [] accu w = (accu, w)"
| "g_signal_emit_handlers (h # hs) accu w =
     (let (r, w') = h w;
          (accu', continue) = g_signal_accumulator_first_wins accu r
      in if continue then g_signal_emit_handlers hs accu' w' else (accu', w'))"

definition g_signal_emit_CREATE_VIEW :: "listener list \<Rightarrow> world \<Rightarrow> WebKitWebView option \<times> world" where
  "g_signal_emit_CREATE_VIEW ls w =
     g_signal_emit_handlers (map (\<lambda>l w. (l (priv w), w)) ls @ [cog_shell_create_view_base]) None w"

text \<open>
  \<open>cog_shell_startup_base\<close>. A failed \<open>g_assert\<close> aborts the process: the result is the
  assertion that failed.
\<close>

definition cog_shell_startup_base :: "listener list \<Rightarrow> world \<Rightarrow> fatal + world" where
  "cog_shell_startup_base ls w =
     (let w1 = (case request_handlers (priv w) of
                  None \<Rightarrow> w
                | Some t \<Rightarrow> g_hash_table_foreach t request_handler_map_entry_register (web_context (priv w)) w);
          (v, w2) = g_signal_emit_CREATE_VIEW ls w1;
          w3 = w2\<lparr>priv := (priv w2)\<lparr>web_view := v\<rparr>\<rparr>
      in if webkit_web_view_get_settings (web_view (priv w3)) \<noteq> web_settings (priv w3)
         then Inl Assertion_failed_settings
         else if webkit_web_view_get_context (web_view (priv w3)) \<noteq> web_context (priv w3)
         then Inl Assertion_failed_context
         else Inr w3)"

text \<open>
  \<open>cog_shell_startup\<close> calls the startup method of the shell's class, which for the
  class of the shell itself is \<open>cog_shell_startup_base\<close>.
\<close>

definition cog_shell_startup :: "listener list \<Rightarrow> world \<Rightarrow> fatal + world" where
  "cog_shell_startup ls w = cog_shell_startup_base ls w"

subsection \<open>Construction\<close>

text \<open>
  \<open>cog_shell_new (name)\<close> is \<open>g_object_new (COG_TYPE_SHELL, "name", name, NULL)\<close>. The
  object system builds the instance in three steps: it allocates the zeroed private
  structure and runs the instance initialiser \<open>cog_shell_init\<close>; it sets every
  construct property, of which the class has one, \<open>name\<close> (\<open>G_PARAM_CONSTRUCT_ONLY\<close>,
  default NULL), through \<open>cog_shell_set_property\<close>; it runs \<open>cog_shell_constructed\<close>.
\<close>

datatype property = PROP_NAME "string option" | PROP_CONFIG_FILE "gpointer option"

definition g_type_create_instance :: world where
  "g_type_create_instance =
     \<lparr>priv = \<lparr>name = None, web_settings = None, web_context = None, web_view = None,
              config_file = None, request_handlers = None\<rparr>,
      next_object = 1, registered_uri_schemes = [], website_data = []\<rparr>"

definition cog_shell_init :: "shell_env \<Rightarrow> world \<Rightarrow> world" where
  "cog_shell_init env w =
     (if name (priv w) = None then w\<lparr>priv := (priv w)\<lparr>name := g_get_prgname env\<rparr>\<rparr> else w)"

fun cog_shell_set_property :: "property \<Rightarrow> world \<Rightarrow> world" where
  "cog_shell_set_property (PROP_NAME v) w = w\<lparr>priv := (priv w)\<lparr>name := v\<rparr>\<rparr>"
| "cog_shell_set_property (PROP_CONFIG_FILE v) w = w\<lparr>priv := (priv w)\<lparr>config_file := v\<rparr>\<rparr>"

text \<open>The arguments of a NULL-terminated argument list: those before the first NULL.\<close>

fun until_NULL :: "'a option list \<Rightarrow> 'a list" where
  "until_NULL [] = []"
| "until_NULL (None # xs) = []"
| "until_NULL (Some x # xs) = x # until_NULL xs"

definition cog_shell_constructed :: "shell_env \<Rightarrow> world \<Rightarrow> world" where
  "cog_shell_constructed env w =
     (let (s, w1) = g_object_new_fresh w;
          data_dir = g_build_filename env (until_NULL [Some (g_get_user_data_dir env), name (priv w1)]);
          cache_dir = g_build_filename env (until_NULL [Some (g_get_user_cache_dir env), name (priv w1)]);
          (c, w2) = g_object_new_fresh w1
      in w2\<lparr>priv := (priv w2)\<lparr>web_settings := Some s, web_context := Some c\<rparr>,
            website_data := website_data w2 @ [(c, data_dir, cache_dir)]\<rparr>)"

definition cog_shell_new :: "shell_env \<Rightarrow> string option \<Rightarrow> world" where
  "cog_shell_new env nm =
     cog_shell_constructed env (cog_shell_set_property (PROP_NAME nm) (cog_shell_init env g_type_create_instance))"

section \<open>The launcher (dinghy.c)\<close>

text \<open>
  \<open>s_options\<close>, filled by the option parser before the handler runs. The parser leaves
  \<open>arguments\<close> NULL when the command line has no positional argument and stores a vector
  of at least one string otherwise, so the vector is a list and NULL is the empty list.
\<close>

record s_options =
  version :: bool
  print_appid :: bool
  arguments :: "string list"

text \<open>
  A \<open>GFile\<close>, as far as the handler looks at it: whether it is native, whether it
  exists, and its URI.
\<close>

record GFile =
  g_file_is_native :: bool
  g_file_query_exists :: bool
  g_file_get_uri :: string

text \<open>
  What the handler reads from outside: the version macro, the application's id, the
  program name, the process environment, the file a command-line argument denotes, and the
  conversion from the locale's encoding to UTF-8, which gives the converted string or
  fails with the message of its error.
\<close>

record launcher_env =
  DY_VERSION_STRING :: string
  g_application_get_application_id :: "string option"
  prgname :: string
  g_getenv :: "string \<Rightarrow> string option"
  g_file_new_for_commandline_arg :: "string \<Rightarrow> GFile"
  g_locale_to_utf8 :: "string \<Rightarrow> string + string"

text \<open>
  What the handler changes: the options, the start URL of the launcher (NULL until it is
  set), and the text written to standard output and to standard error.
\<close>

record launcher =
  options :: s_options
  home_uri :: "string option"
  stdout :: string
  stderr :: string

definition EXIT_SUCCESS :: int where
  "EXIT_SUCCESS = 0"

definition EXIT_FAILURE :: int where
  "EXIT_FAILURE = 1"

definition newline :: string where
  "newline = [CHR 0x0A]"

definition g_print :: "string \<Rightarrow> launcher \<Rightarrow> launcher" where
  "g_print s l = l\<lparr>stdout := stdout l @ s\<rparr>"

definition g_printerr :: "string \<Rightarrow> launcher \<Rightarrow> launcher" where
  "g_printerr s l = l\<lparr>stderr := stderr l @ s\<rparr>"

text \<open>
  Modelled from the spec: \<open>dy_launcher_set_home_uri\<close> is declared in dinghy.h and its
  body is not among the sources; the spec says that the launcher resolves the URL and sets
  it on the shell.
\<close>

definition dy_launcher_set_home_uri :: "string \<Rightarrow> launcher \<Rightarrow> launcher" where
  "dy_launcher_set_home_uri u l = l\<lparr>home_uri := Some u\<rparr>"

text \<open>
  \<open>on_handle_local_options\<close>. Each \<open>return\<close> of the source is a branch; the value
  returned is the first component. The two places that leave with a message before the
  file is looked at are the \<open>Inl\<close> of the first \<open>case\<close>.
\<close>

definition on_handle_local_options :: "launcher_env \<Rightarrow> launcher \<Rightarrow> int \<times> launcher" where
  "on_handle_local_options env l =
     (if version (options l) then (EXIT_SUCCESS, g_print (DY_VERSION_STRING env @ newline) l)
      else if print_appid (options l) then
        (EXIT_SUCCESS,
         case g_application_get_application_id env of
           None \<Rightarrow> l
         | Some appid \<Rightarrow> g_print (appid @ newline) l)
      else
        (case (case arguments (options l) of
                 [] \<Rightarrow>
                   (case g_getenv env ''DINGHY_URL'' of
                      None \<Rightarrow> Inl (prgname env @ '': URL not passed in the command line, and DINGHY_URL not set'' @ newline)
                    | Some u \<Rightarrow> Inr u)
               | a # rest \<Rightarrow>
                   if length (a # rest) > 1
                   then Inl (prgname env @ '': Cannot load more than one URL.'' @ newline)
                   else Inr a) of
           Inl msg \<Rightarrow> (EXIT_FAILURE, g_printerr msg l)
         | Inr uri \<Rightarrow>
             (let file = g_file_new_for_commandline_arg env uri in
              case (if g_file_is_native file \<and> g_file_query_exists file
                    then Inr (g_file_get_uri file)
                    else (case g_locale_to_utf8 env uri of
                            Inl message \<Rightarrow>
                              Inl (prgname env @ '': URI '' @ [CHR 0x27] @ uri @ [CHR 0x27]
                                   @ '' is invalid UTF-8: '' @ message @ newline)
                          | Inr converted \<Rightarrow> Inr converted)) of
                Inl msg \<Rightarrow> (EXIT_FAILURE, g_printerr msg l)
              | Inr utf8_uri \<Rightarrow>
                  (- 1, dy_launcher_set_home_uri utf8_uri (l\<lparr>options := (options l)\<lparr>arguments := []\<rparr>\<rparr>)))))"

text \<open>
  The application framework's contract for this handler: a value that is not negative
  ends the process with that status and the application is never started; a negative
  value lets startup go on.
\<close>

definition g_application_exit_status :: "int \<Rightarrow> int option" where
  "g_application_exit_status rc = (if 0 \<le> rc then Some rc else None)"

section \<open>The specification's reading, and sample inputs\<close>

text \<open>
  The specification's words for the view that startup keeps: "the first non-empty view
  returned by any listener".
\<close>

fun spec_first_non_empty_view :: "listener list \<Rightarrow> CogShellPrivate \<Rightarrow> WebKitWebView option" where
  "spec_first_non_empty_view [] p = None"
| "spec_first_non_empty_view (l # ls) p =
     (case l p of Some v \<Rightarrow> Some v | None \<Rightarrow> spec_first_non_empty_view ls p)"

text \<open>
  The specification's words for the interpretation of the resolved value: "a local file
  path first (if it names an existing file on a native filesystem, convert to a canonical
  URI); otherwise it is treated as an opaque URI and must be valid text in the process's
  text encoding, else fail with an encoding error". The result is the start URL, or the
  message of the encoding error.
\<close>

definition spec_start_url :: "launcher_env \<Rightarrow> string \<Rightarrow> string + string" where
  "spec_start_url env u =
     (if g_file_is_native (g_file_new_for_commandline_arg env u)
         \<and> g_file_query_exists (g_file_new_for_commandline_arg env u)
      then Inr (g_file_get_uri (g_file_new_for_commandline_arg env u))
      else g_locale_to_utf8 env u)"

text \<open>No entry of the shell's table has its flag set.\<close>

definition all_unregistered :: "world \<Rightarrow> bool" where
  "all_unregistered w =
     (case request_handlers (priv w) of
        None \<Rightarrow> True
      | Some t \<Rightarrow> list_all (\<lambda>(k, e). \<not> registered e) t)"

text \<open>
  A shell environment: the program is called dinghy; the path join ignores the elements
  that are empty and puts a slash between the others.
\<close>

fun join_path :: "string list \<Rightarrow> string" where
  "join_path [] = []"
| "join_path (x # xs) =
     (if x = [] then join_path xs
      else if join_path xs = [] then x
      else x @ ''/'' @ join_path xs)"

definition sample_shell_env :: shell_env where
  "sample_shell_env =
     \<lparr>g_get_prgname = Some ''dinghy'',
      g_get_user_data_dir = ''/home/user/.local/share'',
      g_get_user_cache_dir = ''/home/user/.cache'',
      g_build_filename = join_path\<rparr>"

definition sample_shell :: world where
  "sample_shell = cog_shell_new sample_shell_env (Some ''dinghy'')"

text \<open>
  Three listeners: one that returns NULL, one that builds its view over the settings and
  the context of the shell it is given, one that builds its view over objects of its own.
\<close>

definition listener_NULL :: listener where
  "listener_NULL p = None"

definition listener_shell_view :: listener where
  "listener_shell_view p =
     (case web_settings p of
        None \<Rightarrow> None
      | Some s \<Rightarrow>
         (case web_context p of
            None \<Rightarrow> None
          | Some c \<Rightarrow> Some \<lparr>view_object = 100, view_settings = s, view_context = c\<rparr>))"

definition listener_foreign_view :: listener where
  "listener_foreign_view p = Some \<lparr>view_object = 100, view_settings = 200, view_context = 201\<rparr>"

text \<open>
  Launcher environments. In the first the locale is the C locale, whose encoding is
  ASCII: the conversion to UTF-8 copies ASCII text and fails on any other byte. The only
  file that exists is /tmp/index.html, and \<open>DINGHY_URL\<close> is https://example.org. The
  second differs in \<open>DINGHY_URL\<close>, which names the file; the third has no
  \<open>DINGHY_URL\<close>. In the fourth the locale's encoding is ISO-8859-1, where every byte is
  valid text and a byte from 0x80 on becomes two bytes of UTF-8.
\<close>

definition ascii_to_utf8 :: "string \<Rightarrow> string + string" where
  "ascii_to_utf8 s =
     (if list_all (\<lambda>c. (of_char c :: nat) < 128) s then Inr s
      else Inl ''Invalid byte sequence in conversion input'')"

definition latin1_to_utf8 :: "string \<Rightarrow> string" where
  "latin1_to_utf8 s =
     concat (map (\<lambda>c. if (of_char c :: nat) < 128 then [c]
                       else [char_of (192 + (of_char c :: nat) div 64),
                             char_of (128 + (of_char c :: nat) mod 64)]) s)"

definition sample_file_for :: "string \<Rightarrow> GFile" where
  "sample_file_for a =
     (if a = ''/tmp/index.html''
      then \<lparr>g_file_is_native = True, g_file_query_exists = True,
            g_file_get_uri = ''file:///tmp/index.html''\<rparr>
      else \<lparr>g_file_is_native = False, g_file_query_exists = False, g_file_get_uri = a\<rparr>)"

definition sample_launcher_env :: launcher_env where
  "sample_launcher_env =
     \<lparr>DY_VERSION_STRING = ''0.1.0'',
      g_application_get_application_id = Some ''com.igalia.Dinghy'',
      prgname = ''dinghy'',
      g_getenv = (\<lambda>k. if k = ''DINGHY_URL'' then Some ''https://example.org'' else None),
      g_file_new_for_commandline_arg = sample_file_for,
      g_locale_to_utf8 = ascii_to_utf8\<rparr>"

definition sample_launcher_env_file :: launcher_env where
  "sample_launcher_env_file =
     sample_launcher_env\<lparr>g_getenv := (\<lambda>k. if k = ''DINGHY_URL'' then Some ''/tmp/index.html'' else None)\<rparr>"

definition sample_launcher_env_unset :: launcher_env where
  "sample_launcher_env_unset = sample_launcher_env\<lparr>g_getenv := (\<lambda>k. None)\<rparr>"

definition sample_launcher_env_latin1 :: launcher_env where
  "sample_launcher_env_latin1 =
     sample_launcher_env\<lparr>g_locale_to_utf8 := (\<lambda>s. Inr (latin1_to_utf8 s))\<rparr>"

text \<open>A launcher before the handler runs, with the given flags and positional arguments.\<close>

definition sample_launcher :: "bool \<Rightarrow> bool \<Rightarrow> string list \<Rightarrow> launcher" where
  "sample_launcher v a args =
     \<lparr>options = \<lparr>version = v, print_appid = a, arguments = args\<rparr>,
      home_uri = None, stdout = [], stderr = []\<rparr>"

section \<open>Properties of the shell\<close>

subsection \<open>Auxiliary facts\<close>

lemma priv_register [simp]:
  "priv (request_handler_map_entry_register k e c w) = priv w"
  by (simp add: request_handler_map_entry_register_def split: option.splits)

lemma priv_foreach_register [simp]:
  "priv (g_hash_table_foreach t request_handler_map_entry_register c w) = priv w"
  by (induction t arbitrary: w) auto

lemma emit_first_listener:
  "g_signal_emit_CREATE_VIEW (l # ls) w = (l (priv w), w)"
  by (simp add: g_signal_emit_CREATE_VIEW_def g_signal_accumulator_first_wins_def)

lemma emit_no_listener:
  "g_signal_emit_CREATE_VIEW [] w = cog_shell_create_view_base w"
  by (simp add: g_signal_emit_CREATE_VIEW_def g_signal_accumulator_first_wins_def split: prod.splits)

lemma create_view_base_constructed:
  "web_settings (priv w) = Some s \<Longrightarrow> web_context (priv w) = Some c \<Longrightarrow>
     cog_shell_create_view_base w =
       (Some \<lparr>view_object = next_object w, view_settings = s, view_context = c\<rparr>,
        w\<lparr>next_object := Suc (next_object w)\<rparr>)"
  by (simp add: cog_shell_create_view_base_def webkit_web_view_new_def g_object_new_fresh_def
      cog_shell_get_web_settings_def cog_shell_get_web_context_def)

text \<open>
  The shell that \<open>cog_shell_new\<close> returns: its settings are the first object allocated,
  its context the second, and its name is the one that was passed.
\<close>

lemma cog_shell_new_eq:
  "cog_shell_new env nm =
     \<lparr>priv = \<lparr>name = nm, web_settings = Some 1, web_context = Some 2, web_view = None,
              config_file = None, request_handlers = None\<rparr>,
      next_object = 3, registered_uri_schemes = [],
      website_data = [(2, g_build_filename env (until_NULL [Some (g_get_user_data_dir env), nm]),
                          g_build_filename env (until_NULL [Some (g_get_user_cache_dir env), nm]))]\<rparr>"
  by (simp add: cog_shell_new_def cog_shell_constructed_def g_object_new_fresh_def
      cog_shell_init_def g_type_create_instance_def)

lemma sample_shell_eq:
  "sample_shell =
     \<lparr>priv = \<lparr>name = Some ''dinghy'', web_settings = Some 1, web_context = Some 2, web_view = None,
              config_file = None, request_handlers = None\<rparr>,
      next_object = 3, registered_uri_schemes = [],
      website_data = [(2, ''/home/user/.local/share/dinghy'', ''/home/user/.cache/dinghy'')]\<rparr>"
  by (simp add: sample_shell_def cog_shell_new_eq sample_shell_env_def)

subsection \<open>The flag of an entry\<close>

text \<open>
  The flag \<open>registered\<close> is unset in a new entry and no function sets it: no entry of
  a new shell has it set, and \<open>cog_shell_set_request_handler\<close> keeps it so. Hence the
  traversal of the table at startup registers every entry of the table.
\<close>

lemma list_all_insert:
  "list_all P t \<Longrightarrow> P (k, v) \<Longrightarrow> list_all P (g_hash_table_insert t k v)"
  by (induction t) auto

lemma list_all_lookup:
  "list_all P t \<Longrightarrow> g_hash_table_lookup t k = Some e \<Longrightarrow> P (k, e)"
  by (induction t) (auto simp add: g_hash_table_lookup_def split: if_splits)

lemma new_shell_unregistered: "all_unregistered (cog_shell_new env nm)"
  by (simp add: all_unregistered_def cog_shell_new_eq)

lemma set_request_handler_unregistered:
  assumes "all_unregistered w"
  shows "all_unregistered (cog_shell_set_request_handler scheme h w)"
proof (cases scheme)
  case None
  with assms show ?thesis by (simp add: cog_shell_set_request_handler_def)
next
  case s: (Some s)
  show ?thesis
  proof (cases h)
    case None
    with assms s show ?thesis by (simp add: cog_shell_set_request_handler_def)
  next
    case (Some hnd)
    define t where "t = (case request_handlers (priv w) of None \<Rightarrow> [] | Some t0 \<Rightarrow> t0)"
    have t: "list_all (\<lambda>(k, e). \<not> registered e) t"
      using assms by (simp add: t_def all_unregistered_def split: option.splits)
    define entry where "entry = (case g_hash_table_lookup t s of
                             None \<Rightarrow> request_handler_map_entry_new hnd
                           | Some e \<Rightarrow> if handler e \<noteq> hnd then e\<lparr>handler := hnd\<rparr> else e)"
    have "\<not> registered entry"
      using list_all_lookup [OF t, of s]
      by (auto simp add: entry_def request_handler_map_entry_new_def split: option.splits)
    with t have "list_all (\<lambda>(k, e). \<not> registered e) (g_hash_table_insert t s entry)"
      by (simp add: list_all_insert)
    then show ?thesis
      using s Some
      by (simp add: cog_shell_set_request_handler_def all_unregistered_def Let_def
          t_def [symmetric] entry_def [symmetric])
  qed
qed

lemma foreach_registers_every_entry:
  "list_all (\<lambda>(k, e). \<not> registered e) t \<Longrightarrow>
     registered_uri_schemes (g_hash_table_foreach t request_handler_map_entry_register (Some c) w)
       = registered_uri_schemes w @ map (\<lambda>(k, e). (c, k)) t"
  by (induction t arbitrary: w) (auto simp add: request_handler_map_entry_register_def)

subsection \<open>Request handlers\<close>

text \<open>
  Claim C1. Setting a handler twice for the same scheme replaces the stored handler and
  is said not to ask the context a second time. On a new shell, whatever its name, the
  scheme and the two handlers, the second call does replace the handler (the table holds
  the second handler), but the flag of the entry is still unset after the first call and
  the context is asked twice: the calls of \<open>webkit_web_context_register_uri_scheme\<close> are
  two, both for this scheme.
\<close>

theorem set_request_handler_twice_registers_twice:
  "cog_shell_set_request_handler (Some s) (Some h2)
     (cog_shell_set_request_handler (Some s) (Some h1) (cog_shell_new env nm)) =
   (cog_shell_new env nm)
     \<lparr>priv := (priv (cog_shell_new env nm))
          \<lparr>request_handlers := Some [(s, \<lparr>handler = h2, registered = False\<rparr>)]\<rparr>,
      registered_uri_schemes := [(2, s), (2, s)]\<rparr>"
  by (simp add: cog_shell_new_eq cog_shell_set_request_handler_def g_hash_table_lookup_def
      request_handler_map_entry_new_def request_handler_map_entry_register_def Let_def)

text \<open>
  Claim C2. Startup is said to register the pending handlers only, and not to register
  again a handler already registered with the context. On a new shell a handler that is
  set is registered at once, since the context exists (one call); startup without
  listeners then succeeds and registers the same scheme with the same context once more
  (two calls).
\<close>

theorem startup_registers_registered_handler_again:
  "registered_uri_schemes
     (cog_shell_set_request_handler (Some s) (Some h) (cog_shell_new env nm)) = [(2, s)] \<and>
   map_sum id registered_uri_schemes
     (cog_shell_startup [] (cog_shell_set_request_handler (Some s) (Some h) (cog_shell_new env nm)))
     = Inr [(2, s), (2, s)]"
  by (simp add: cog_shell_new_eq cog_shell_set_request_handler_def g_hash_table_lookup_def
      request_handler_map_entry_new_def request_handler_map_entry_register_def Let_def
      cog_shell_startup_def cog_shell_startup_base_def emit_no_listener create_view_base_constructed
      webkit_web_view_get_settings_def webkit_web_view_get_context_def)

subsection \<open>The name of the shell\<close>

text \<open>
  Claim C10. A shell made with a NULL name is said to take the program's name, and its
  data and cache directories to be built from it. The initialiser does store the program's
  name, but the construct property \<open>name\<close> is set after it and stores the NULL that was
  passed: the shell's name is NULL, and both directories are built from the user's
  directory alone, the NULL name ending the argument list of the path join.
\<close>

theorem cog_shell_new_NULL_name_not_defaulted:
  "cog_shell_get_name (cog_shell_init env g_type_create_instance) = g_get_prgname env \<and>
   cog_shell_get_name (cog_shell_new env None) = None \<and>
   website_data (cog_shell_new env None) =
     [(2, g_build_filename env [g_get_user_data_dir env],
          g_build_filename env [g_get_user_cache_dir env])]"
  by (simp add: cog_shell_new_eq cog_shell_get_name_def cog_shell_init_def g_type_create_instance_def)

subsection \<open>The view kept by startup\<close>

text \<open>
  The specification's reading of claim C5 fails where the first listener returns NULL and
  the second a view over the shell's own settings and context. The first non-empty view
  returned by a listener is the second listener's; the emission stops after the first
  listener, the shell's view is NULL, and startup ends in the first assertion, although
  the documentation of the signal allows a listener to return NULL.
\<close>

theorem first_non_empty_view_counterexample:
  "spec_first_non_empty_view [listener_NULL, listener_shell_view] (priv sample_shell)
     = Some \<lparr>view_object = 100, view_settings = 1, view_context = 2\<rparr>
   \<and> cog_shell_startup [listener_NULL, listener_shell_view] sample_shell = Inl Assertion_failed_settings"
  by (simp add: sample_shell_eq listener_NULL_def listener_shell_view_def cog_shell_startup_def
      cog_shell_startup_base_def emit_first_listener webkit_web_view_get_settings_def)

text \<open>
  Claim C5, amended. Startup emits the create-view extension point and asks only the first
  connected listener: the emission returns what that listener returns, and startup with
  further listeners connected after it is startup with that listener alone. On a shell
  that has its settings and its context: with no listener connected, startup succeeds and
  keeps a view built over the shell's settings and context; when the first listener
  returns a view over the shell's settings and context, startup succeeds and keeps that
  view, whatever the listeners after it would return.
\<close>

theorem startup_keeps_first_listener_view:
  "g_signal_emit_CREATE_VIEW (l # ls) w = (l (priv w), w)
   \<and> cog_shell_startup (l # ls) w = cog_shell_startup [l] w
   \<and> (web_settings (priv w) = Some s \<and> web_context (priv w) = Some c \<longrightarrow>
        (\<exists>v w'. cog_shell_startup [] w = Inr w' \<and> web_view (priv w') = Some v
                  \<and> view_settings v = s \<and> view_context v = c)
        \<and> (l (priv w) = Some v \<and> view_settings v = s \<and> view_context v = c \<longrightarrow>
             (\<exists>w'. cog_shell_startup (l # ls) w = Inr w' \<and> web_view (priv w') = Some v)))"
proof (intro conjI impI)
  show "g_signal_emit_CREATE_VIEW (l # ls) w = (l (priv w), w)"
    by (rule emit_first_listener)
  show "cog_shell_startup (l # ls) w = cog_shell_startup [l] w"
    by (simp add: cog_shell_startup_def cog_shell_startup_base_def emit_first_listener)
next
  define w1 where "w1 = (case request_handlers (priv w) of None \<Rightarrow> w
      | Some t \<Rightarrow> g_hash_table_foreach t request_handler_map_entry_register (web_context (priv w)) w)"
  have p1: "priv w1 = priv w"
    by (simp add: w1_def split: option.splits)
  assume sc: "web_settings (priv w) = Some s \<and> web_context (priv w) = Some c"
  show "\<exists>v w'. cog_shell_startup [] w = Inr w' \<and> web_view (priv w') = Some v
                  \<and> view_settings v = s \<and> view_context v = c"
    using sc p1
    by (simp add: cog_shell_startup_def cog_shell_startup_base_def w1_def [symmetric]
        emit_no_listener create_view_base_constructed
        webkit_web_view_get_settings_def webkit_web_view_get_context_def)
  assume "l (priv w) = Some v \<and> view_settings v = s \<and> view_context v = c"
  then show "\<exists>w'. cog_shell_startup (l # ls) w = Inr w' \<and> web_view (priv w') = Some v"
    using sc p1
    by (simp add: cog_shell_startup_def cog_shell_startup_base_def w1_def [symmetric]
        emit_first_listener webkit_web_view_get_settings_def webkit_web_view_get_context_def)
qed

text \<open>
  The amended claim C5 at the sample shell: a listener connected after the first is not
  asked, without listeners the default view is kept, and the first listener's view is kept.
\<close>

theorem startup_keeps_first_listener_view_witness:
  "web_settings (priv sample_shell) = Some 1 \<and> web_context (priv sample_shell) = Some 2
   \<and> listener_shell_view (priv sample_shell) = Some \<lparr>view_object = 100, view_settings = 1, view_context = 2\<rparr>
   \<and> cog_shell_startup [listener_shell_view, listener_foreign_view] sample_shell
       = cog_shell_startup [listener_shell_view] sample_shell
   \<and> (\<exists>v w'. cog_shell_startup [] sample_shell = Inr w' \<and> web_view (priv w') = Some v
                \<and> view_settings v = 1 \<and> view_context v = 2)
   \<and> (\<exists>w'. cog_shell_startup [listener_shell_view, listener_foreign_view] sample_shell = Inr w'
            \<and> web_view (priv w') = Some \<lparr>view_object = 100, view_settings = 1, view_context = 2\<rparr>)"
proof -
  have s: "web_settings (priv sample_shell) = Some 1"
    by (simp add: sample_shell_eq)
  have c: "web_context (priv sample_shell) = Some 2"
    by (simp add: sample_shell_eq)
  have l: "listener_shell_view (priv sample_shell) = Some \<lparr>view_object = 100, view_settings = 1, view_context = 2\<rparr>"
    by (simp add: sample_shell_eq listener_shell_view_def)
  note t = startup_keeps_first_listener_view [where w = sample_shell and s = 1 and c = 2
          and l = listener_shell_view and ls = "[listener_foreign_view]"
          and v = "\<lparr>view_object = 100, view_settings = 1, view_context = 2\<rparr>"]
  from t have a: "cog_shell_startup [listener_shell_view, listener_foreign_view] sample_shell
       = cog_shell_startup [listener_shell_view] sample_shell"
    by blast
  from t s c have b: "\<exists>v w'. cog_shell_startup [] sample_shell = Inr w' \<and> web_view (priv w') = Some v
                \<and> view_settings v = 1 \<and> view_context v = 2"
    by blast
  have m: "view_settings \<lparr>view_object = 100, view_settings = 1, view_context = 2\<rparr> = 1
      \<and> view_context \<lparr>view_object = 100, view_settings = 1, view_context = 2\<rparr> = 2"
    by simp
  from t s c l m have d: "\<exists>w'. cog_shell_startup [listener_shell_view, listener_foreign_view] sample_shell = Inr w'
            \<and> web_view (priv w') = Some \<lparr>view_object = 100, view_settings = 1, view_context = 2\<rparr>"
    by blast
  from s c l a b d show ?thesis
    by blast
qed

text \<open>
  Claim C6. When the listener that is asked returns a view whose settings or whose
  context are not the shell's, startup ends in a failed assertion; and whenever startup
  returns, the view it kept has the shell's settings and the shell's context, so that no
  other view is ever accepted.
\<close>

theorem startup_mismatched_view_aborts:
  "(l (priv w) = Some v \<and>
      (Some (view_settings v) \<noteq> web_settings (priv w) \<or> Some (view_context v) \<noteq> web_context (priv w))
     \<longrightarrow> cog_shell_startup (l # ls) w = Inl Assertion_failed_settings
          \<or> cog_shell_startup (l # ls) w = Inl Assertion_failed_context)
   \<and> (cog_shell_startup ls' w = Inr w' \<and> web_view (priv w') = Some v'
     \<longrightarrow> Some (view_settings v') = web_settings (priv w) \<and> Some (view_context v') = web_context (priv w))"
proof (intro conjI impI)
  define w1 where "w1 = (case request_handlers (priv w) of None \<Rightarrow> w
      | Some t \<Rightarrow> g_hash_table_foreach t request_handler_map_entry_register (web_context (priv w)) w)"
  have p1: "priv w1 = priv w"
    by (simp add: w1_def split: option.splits)
  { assume "l (priv w) = Some v \<and>
      (Some (view_settings v) \<noteq> web_settings (priv w) \<or> Some (view_context v) \<noteq> web_context (priv w))"
    then show "cog_shell_startup (l # ls) w = Inl Assertion_failed_settings
          \<or> cog_shell_startup (l # ls) w = Inl Assertion_failed_context"
      using p1
      by (auto simp add: cog_shell_startup_def cog_shell_startup_base_def w1_def [symmetric]
        emit_first_listener webkit_web_view_get_settings_def webkit_web_view_get_context_def Let_def) }
  assume a: "cog_shell_startup ls' w = Inr w' \<and> web_view (priv w') = Some v'"
  obtain r w2 where e: "g_signal_emit_CREATE_VIEW ls' w1 = (r, w2)"
    by (cases "g_signal_emit_CREATE_VIEW ls' w1")
  have p2: "priv w2 = priv w"
  proof (cases ls')
    case Nil
    then show ?thesis using e p1
      by (auto simp add: emit_no_listener cog_shell_create_view_base_def webkit_web_view_new_def
          g_object_new_fresh_def split: option.splits prod.splits)
  next
    case (Cons a list)
    then show ?thesis using e p1 by (simp add: emit_first_listener)
  qed
  from a e p2 show "Some (view_settings v') = web_settings (priv w)"
    by (auto simp add: cog_shell_startup_def cog_shell_startup_base_def w1_def [symmetric]
        webkit_web_view_get_settings_def webkit_web_view_get_context_def Let_def split: if_splits)
  from a e p2 show "Some (view_context v') = web_context (priv w)"
    by (auto simp add: cog_shell_startup_def cog_shell_startup_base_def w1_def [symmetric]
        webkit_web_view_get_settings_def webkit_web_view_get_context_def Let_def split: if_splits)
qed

text \<open>
  Claim C6 at the sample shell: a listener with a view over foreign objects makes startup
  abort, and the run that returns keeps a view over the shell's objects.
\<close>

theorem startup_mismatched_view_aborts_witness:
  "listener_foreign_view (priv sample_shell) = Some \<lparr>view_object = 100, view_settings = 200, view_context = 201\<rparr>
   \<and> Some 200 \<noteq> web_settings (priv sample_shell)
   \<and> (cog_shell_startup [listener_foreign_view, listener_shell_view] sample_shell = Inl Assertion_failed_settings
      \<or> cog_shell_startup [listener_foreign_view, listener_shell_view] sample_shell = Inl Assertion_failed_context)
   \<and> cog_shell_startup [listener_shell_view] sample_shell =
       Inr (sample_shell\<lparr>priv := (priv sample_shell)
              \<lparr>web_view := Some \<lparr>view_object = 100, view_settings = 1, view_context = 2\<rparr>\<rparr>\<rparr>)
   \<and> Some 1 = web_settings (priv sample_shell) \<and> Some 2 = web_context (priv sample_shell)"
proof -
  have l: "listener_foreign_view (priv sample_shell) = Some \<lparr>view_object = 100, view_settings = 200, view_context = 201\<rparr>"
    by (simp add: listener_foreign_view_def)
  have m: "Some 200 \<noteq> web_settings (priv sample_shell)"
    by (simp add: sample_shell_eq)
  have r: "cog_shell_startup [listener_shell_view] sample_shell =
       Inr (sample_shell\<lparr>priv := (priv sample_shell)
              \<lparr>web_view := Some \<lparr>view_object = 100, view_settings = 1, view_context = 2\<rparr>\<rparr>\<rparr>)"
    by (simp add: sample_shell_eq listener_shell_view_def cog_shell_startup_def
      cog_shell_startup_base_def emit_first_listener webkit_web_view_get_settings_def
      webkit_web_view_get_context_def)
  show ?thesis
    using l m r
      startup_mismatched_view_aborts [where l = listener_foreign_view and w = sample_shell
        and v = "\<lparr>view_object = 100, view_settings = 200, view_context = 201\<rparr>"
        and ls = "[listener_shell_view]" and ls' = "[listener_shell_view]"
        and w' = "sample_shell\<lparr>priv := (priv sample_shell)
              \<lparr>web_view := Some \<lparr>view_object = 100, view_settings = 1, view_context = 2\<rparr>\<rparr>\<rparr>"
        and v' = "\<lparr>view_object = 100, view_settings = 1, view_context = 2\<rparr>"]
    by simp
qed

section \<open>Properties of the launcher\<close>

subsection \<open>Auxiliary facts\<close>

lemma sample_file_index [simp]:
  "sample_file_for ''/tmp/index.html'' =
     \<lparr>g_file_is_native = True, g_file_query_exists = True, g_file_get_uri = ''file:///tmp/index.html''\<rparr>"
  by (simp add: sample_file_for_def)

lemma sample_file_example_org [simp]:
  "sample_file_for ''https://example.org'' =
     \<lparr>g_file_is_native = False, g_file_query_exists = False, g_file_get_uri = ''https://example.org''\<rparr>"
  by (simp add: sample_file_for_def)

lemma ascii_example_org [simp]:
  "ascii_to_utf8 ''https://example.org'' = Inr ''https://example.org''"
  by (simp add: ascii_to_utf8_def)

subsection \<open>Where the start URL comes from\<close>

text \<open>
  The last part of claim C3, that the shell's URL becomes exactly the value of
  \<open>DINGHY_URL\<close> when that variable alone supplies it, fails where the value names an
  existing file: with no positional argument and \<open>DINGHY_URL\<close> set to /tmp/index.html,
  the URL that is set is the file's URI and not the value.
\<close>

theorem dinghy_url_naming_a_file_counterexample:
  "arguments (options (sample_launcher False False [])) = []
   \<and> g_getenv sample_launcher_env_file ''DINGHY_URL'' = Some ''/tmp/index.html''
   \<and> home_uri (snd (on_handle_local_options sample_launcher_env_file (sample_launcher False False [])))
       = Some ''file:///tmp/index.html''
   \<and> home_uri (snd (on_handle_local_options sample_launcher_env_file (sample_launcher False False [])))
       \<noteq> Some ''/tmp/index.html''"
  by code_simp

text \<open>
  Claim C3, amended. With neither \<open>--version\<close> nor \<open>--print-appid\<close>, the value is the
  single positional argument if there is one, whatever the environment holds, and
  otherwise the value of \<open>DINGHY_URL\<close>; the handler then lets startup go on with the
  interpretation of that value as the start URL, or fails with no URL set when the value
  is not valid text. With no positional argument and no \<open>DINGHY_URL\<close> the handler fails
  with the usage message, exit status 1, and no URL is set. When \<open>DINGHY_URL\<close> alone
  supplies a value that names no existing native file and that the conversion to UTF-8
  leaves unchanged, the URL becomes exactly that value.
\<close>

theorem start_url_resolution_order:
  assumes "\<not> version (options l)" and "\<not> print_appid (options l)"
  shows "(arguments (options l) = [a]
            \<or> arguments (options l) = [] \<and> g_getenv env ''DINGHY_URL'' = Some a \<longrightarrow>
            (case spec_start_url env a of
               Inr s \<Rightarrow> on_handle_local_options env l =
                          (- 1, l\<lparr>options := (options l)\<lparr>arguments := []\<rparr>, home_uri := Some s\<rparr>)
             | Inl e \<Rightarrow> fst (on_handle_local_options env l) = EXIT_FAILURE
                        \<and> home_uri (snd (on_handle_local_options env l)) = home_uri l))
       \<and> (arguments (options l) = [] \<and> g_getenv env ''DINGHY_URL'' = None \<longrightarrow>
            on_handle_local_options env l =
              (EXIT_FAILURE,
               l\<lparr>stderr := stderr l @ prgname env
                    @ '': URL not passed in the command line, and DINGHY_URL not set'' @ newline\<rparr>)
            \<and> home_uri (snd (on_handle_local_options env l)) = home_uri l
            \<and> g_application_exit_status (fst (on_handle_local_options env l)) = Some 1)
       \<and> (arguments (options l) = [] \<and> g_getenv env ''DINGHY_URL'' = Some u
            \<and> \<not> (g_file_is_native (g_file_new_for_commandline_arg env u)
                   \<and> g_file_query_exists (g_file_new_for_commandline_arg env u))
            \<and> g_locale_to_utf8 env u = Inr u \<longrightarrow>
            home_uri (snd (on_handle_local_options env l)) = Some u)"
proof (intro conjI impI)
  assume "arguments (options l) = [a]
            \<or> arguments (options l) = [] \<and> g_getenv env ''DINGHY_URL'' = Some a"
  then show "case spec_start_url env a of
               Inr s \<Rightarrow> on_handle_local_options env l =
                          (- 1, l\<lparr>options := (options l)\<lparr>arguments := []\<rparr>, home_uri := Some s\<rparr>)
             | Inl e \<Rightarrow> fst (on_handle_local_options env l) = EXIT_FAILURE
                        \<and> home_uri (snd (on_handle_local_options env l)) = home_uri l"
    using assms
    by (auto simp add: on_handle_local_options_def spec_start_url_def dy_launcher_set_home_uri_def
        g_printerr_def Let_def split: sum.splits)
next
  assume h: "arguments (options l) = [] \<and> g_getenv env ''DINGHY_URL'' = None"
  with assms show "on_handle_local_options env l =
              (EXIT_FAILURE,
               l\<lparr>stderr := stderr l @ prgname env
                    @ '': URL not passed in the command line, and DINGHY_URL not set'' @ newline\<rparr>)"
    by (simp add: on_handle_local_options_def g_printerr_def)
  then show "home_uri (snd (on_handle_local_options env l)) = home_uri l"
    by simp
  from h assms show "g_application_exit_status (fst (on_handle_local_options env l)) = Some 1"
    by (simp add: on_handle_local_options_def g_application_exit_status_def EXIT_FAILURE_def)
next
  assume "arguments (options l) = [] \<and> g_getenv env ''DINGHY_URL'' = Some u
            \<and> \<not> (g_file_is_native (g_file_new_for_commandline_arg env u)
                   \<and> g_file_query_exists (g_file_new_for_commandline_arg env u))
            \<and> g_locale_to_utf8 env u = Inr u"
  with assms show "home_uri (snd (on_handle_local_options env l)) = Some u"
    by (auto simp add: on_handle_local_options_def dy_launcher_set_home_uri_def Let_def)
qed

text \<open>
  The amended claim C3 at three inputs: a positional argument that wins over
  \<open>DINGHY_URL\<close>, neither of them, and \<open>DINGHY_URL\<close> alone.
\<close>

theorem start_url_resolution_order_witness:
  "g_getenv sample_launcher_env ''DINGHY_URL'' = Some ''https://example.org''
   \<and> on_handle_local_options sample_launcher_env (sample_launcher False False [''/tmp/index.html'']) =
       (- 1, \<lparr>options = \<lparr>version = False, print_appid = False, arguments = []\<rparr>,
              home_uri = Some ''file:///tmp/index.html'', stdout = [], stderr = []\<rparr>)
   \<and> g_getenv sample_launcher_env_unset ''DINGHY_URL'' = None
   \<and> on_handle_local_options sample_launcher_env_unset (sample_launcher False False []) =
       (1, \<lparr>options = \<lparr>version = False, print_appid = False, arguments = []\<rparr>,
            home_uri = None, stdout = [],
            stderr = ''dinghy: URL not passed in the command line, and DINGHY_URL not set'' @ [CHR 0x0A]\<rparr>)
   \<and> home_uri (snd (on_handle_local_options sample_launcher_env (sample_launcher False False [])))
       = Some ''https://example.org''"
proof -
  have a: "\<not> version (options (sample_launcher False False args))"
    and b: "\<not> print_appid (options (sample_launcher False False args))" for args
    by (simp_all add: sample_launcher_def)
  have e1: "g_getenv sample_launcher_env ''DINGHY_URL'' = Some ''https://example.org''"
    by (simp add: sample_launcher_env_def)
  have e2: "g_getenv sample_launcher_env_unset ''DINGHY_URL'' = None"
    by (simp add: sample_launcher_env_unset_def sample_launcher_env_def)
  have s1: "spec_start_url sample_launcher_env ''/tmp/index.html'' = Inr ''file:///tmp/index.html''"
    by (simp add: spec_start_url_def sample_launcher_env_def sample_file_for_def)
  have f: "\<not> (g_file_is_native (g_file_new_for_commandline_arg sample_launcher_env ''https://example.org'')
         \<and> g_file_query_exists (g_file_new_for_commandline_arg sample_launcher_env ''https://example.org''))"
    by (simp add: sample_launcher_env_def sample_file_for_def)
  have c: "g_locale_to_utf8 sample_launcher_env ''https://example.org'' = Inr ''https://example.org''"
    by (simp add: sample_launcher_env_def ascii_to_utf8_def)
  have t1: "on_handle_local_options sample_launcher_env (sample_launcher False False [''/tmp/index.html'']) =
       (- 1, \<lparr>options = \<lparr>version = False, print_appid = False, arguments = []\<rparr>,
              home_uri = Some ''file:///tmp/index.html'', stdout = [], stderr = []\<rparr>)"
    using start_url_resolution_order [OF a b, of "[''/tmp/index.html'']" "''/tmp/index.html''" sample_launcher_env] s1
    by (simp add: sample_launcher_def)
  have t2: "on_handle_local_options sample_launcher_env_unset (sample_launcher False False []) =
       (1, \<lparr>options = \<lparr>version = False, print_appid = False, arguments = []\<rparr>,
            home_uri = None, stdout = [],
            stderr = ''dinghy: URL not passed in the command line, and DINGHY_URL not set'' @ [CHR 0x0A]\<rparr>)"
    using start_url_resolution_order [OF a b, of "[]" _ sample_launcher_env_unset] e2
    by (simp add: sample_launcher_def EXIT_FAILURE_def newline_def sample_launcher_env_unset_def sample_launcher_env_def)
  have t3: "home_uri (snd (on_handle_local_options sample_launcher_env (sample_launcher False False [])))
       = Some ''https://example.org''"
    using start_url_resolution_order [OF a b, of "[]" _ sample_launcher_env "''https://example.org''"] e1 f c
    by (simp add: sample_launcher_def)
  from e1 e2 t1 t2 t3 show ?thesis by simp
qed

text \<open>
  Claim C4. With neither \<open>--version\<close> nor \<open>--print-appid\<close> and two or more positional
  arguments, the handler fails with the message that only one URL can be loaded and exit
  status 1, in every environment, and the URL is left as it was.
\<close>

theorem more_than_one_url_fails:
  assumes "\<not> version (options l)" and "\<not> print_appid (options l)"
    and "2 \<le> length (arguments (options l))"
  shows "on_handle_local_options env l =
      (EXIT_FAILURE, l\<lparr>stderr := stderr l @ prgname env @ '': Cannot load more than one URL.'' @ newline\<rparr>)
    \<and> home_uri (snd (on_handle_local_options env l)) = home_uri l
    \<and> g_application_exit_status (fst (on_handle_local_options env l)) = Some 1"
  using assms
  by (cases "arguments (options l)")
     (auto simp add: on_handle_local_options_def g_printerr_def EXIT_FAILURE_def g_application_exit_status_def)

text \<open>Claim C4 with two positional arguments and \<open>DINGHY_URL\<close> set.\<close>

theorem more_than_one_url_fails_witness:
  "2 \<le> length (arguments (options (sample_launcher False False [''https://a.example'', ''https://b.example''])))
   \<and> g_getenv sample_launcher_env ''DINGHY_URL'' = Some ''https://example.org''
   \<and> on_handle_local_options sample_launcher_env
        (sample_launcher False False [''https://a.example'', ''https://b.example'']) =
      (1, \<lparr>options = \<lparr>version = False, print_appid = False,
                      arguments = [''https://a.example'', ''https://b.example'']\<rparr>,
           home_uri = None, stdout = [],
           stderr = ''dinghy: Cannot load more than one URL.'' @ [CHR 0x0A]\<rparr>)"
proof -
  let ?l = "sample_launcher False False [''https://a.example'', ''https://b.example'']"
  have a: "\<not> version (options ?l)" and b: "\<not> print_appid (options ?l)"
    and c: "2 \<le> length (arguments (options ?l))"
    by (simp_all add: sample_launcher_def)
  show ?thesis
    using c more_than_one_url_fails [OF a b c, of sample_launcher_env]
    by (simp add: sample_launcher_def sample_launcher_env_def EXIT_FAILURE_def newline_def)
qed

subsection \<open>How the value is interpreted\<close>

text \<open>
  Claim C7. When the value, from the command line or from \<open>DINGHY_URL\<close>, denotes a
  native file that exists, the start URL is the URI of that file as the library gives it,
  whatever the conversion of the value as text would give.
\<close>

theorem existing_file_gives_file_uri:
  assumes "\<not> version (options l)" and "\<not> print_appid (options l)"
    and "arguments (options l) = [u] \<or> arguments (options l) = [] \<and> g_getenv env ''DINGHY_URL'' = Some u"
    and "g_file_is_native (g_file_new_for_commandline_arg env u)"
    and "g_file_query_exists (g_file_new_for_commandline_arg env u)"
  shows "on_handle_local_options env l =
      (- 1, l\<lparr>options := (options l)\<lparr>arguments := []\<rparr>,
              home_uri := Some (g_file_get_uri (g_file_new_for_commandline_arg env u))\<rparr>)"
  using assms by (auto simp add: on_handle_local_options_def dy_launcher_set_home_uri_def Let_def)

text \<open>Claim C7 for the positional argument /tmp/index.html.\<close>

theorem existing_file_gives_file_uri_witness:
  "arguments (options (sample_launcher False False [''/tmp/index.html''])) = [''/tmp/index.html'']
   \<and> g_file_is_native (g_file_new_for_commandline_arg sample_launcher_env ''/tmp/index.html'')
   \<and> g_file_query_exists (g_file_new_for_commandline_arg sample_launcher_env ''/tmp/index.html'')
   \<and> on_handle_local_options sample_launcher_env (sample_launcher False False [''/tmp/index.html'']) =
      (- 1, \<lparr>options = \<lparr>version = False, print_appid = False, arguments = []\<rparr>,
             home_uri = Some ''file:///tmp/index.html'', stdout = [], stderr = []\<rparr>)"
proof -
  let ?l = "sample_launcher False False [''/tmp/index.html'']"
  have a: "\<not> version (options ?l)" and b: "\<not> print_appid (options ?l)"
    and c: "arguments (options ?l) = [''/tmp/index.html'']
         \<or> arguments (options ?l) = [] \<and> g_getenv sample_launcher_env ''DINGHY_URL'' = Some ''/tmp/index.html''"
    and d: "g_file_is_native (g_file_new_for_commandline_arg sample_launcher_env ''/tmp/index.html'')"
    and e: "g_file_query_exists (g_file_new_for_commandline_arg sample_launcher_env ''/tmp/index.html'')"
    by (simp_all add: sample_launcher_def sample_launcher_env_def)
  show ?thesis
    using d e existing_file_gives_file_uri [OF a b c d e]
    by (simp add: sample_launcher_def sample_launcher_env_def)
qed

text \<open>
  Claim C8, as stated, fails in a locale whose encoding is not UTF-8. In ISO-8859-1 the
  four bytes of the argument, the last being 0xE9, are valid text and name no file; the URL
  handed to the launcher is their conversion to UTF-8, five bytes, and not the argument.
\<close>

theorem latin1_value_is_converted_counterexample:
  "g_file_is_native (g_file_new_for_commandline_arg sample_launcher_env_latin1 (''caf'' @ [CHR 0xE9])) = False
   \<and> g_locale_to_utf8 sample_launcher_env_latin1 (''caf'' @ [CHR 0xE9]) = Inr (''caf'' @ [CHR 0xC3, CHR 0xA9])
   \<and> home_uri (snd (on_handle_local_options sample_launcher_env_latin1
                       (sample_launcher False False [''caf'' @ [CHR 0xE9]])))
       = Some (''caf'' @ [CHR 0xC3, CHR 0xA9])
   \<and> home_uri (snd (on_handle_local_options sample_launcher_env_latin1
                       (sample_launcher False False [''caf'' @ [CHR 0xE9]])))
       \<noteq> Some (''caf'' @ [CHR 0xE9])"
  by code_simp

text \<open>
  Claim C8, amended. When the value, from the command line or from \<open>DINGHY_URL\<close>, does
  not denote an existing native file and is valid text in the locale's encoding, the start
  URL handed to the launcher is the conversion of the value to UTF-8, which is the value
  itself wherever the conversion leaves it unchanged.
\<close>

theorem other_value_is_converted:
  assumes "\<not> version (options l)" and "\<not> print_appid (options l)"
    and "arguments (options l) = [u] \<or> arguments (options l) = [] \<and> g_getenv env ''DINGHY_URL'' = Some u"
    and "\<not> (g_file_is_native (g_file_new_for_commandline_arg env u)
            \<and> g_file_query_exists (g_file_new_for_commandline_arg env u))"
    and "g_locale_to_utf8 env u = Inr s"
  shows "on_handle_local_options env l =
      (- 1, l\<lparr>options := (options l)\<lparr>arguments := []\<rparr>, home_uri := Some s\<rparr>)"
  using assms by (auto simp add: on_handle_local_options_def dy_launcher_set_home_uri_def Let_def)

text \<open>
  The amended claim C8 for \<open>DINGHY_URL\<close> set to https://example.org, which the
  conversion leaves unchanged.
\<close>

theorem other_value_is_converted_witness:
  "arguments (options (sample_launcher False False [])) = []
   \<and> g_getenv sample_launcher_env ''DINGHY_URL'' = Some ''https://example.org''
   \<and> \<not> (g_file_is_native (g_file_new_for_commandline_arg sample_launcher_env ''https://example.org'')
         \<and> g_file_query_exists (g_file_new_for_commandline_arg sample_launcher_env ''https://example.org''))
   \<and> g_locale_to_utf8 sample_launcher_env ''https://example.org'' = Inr ''https://example.org''
   \<and> on_handle_local_options sample_launcher_env (sample_launcher False False []) =
      (- 1, \<lparr>options = \<lparr>version = False, print_appid = False, arguments = []\<rparr>,
             home_uri = Some ''https://example.org'', stdout = [], stderr = []\<rparr>)"
proof -
  let ?l = "sample_launcher False False []"
  let ?u = "''https://example.org''"
  have a: "\<not> version (options ?l)" and b: "\<not> print_appid (options ?l)"
    and c: "arguments (options ?l) = [?u]
         \<or> arguments (options ?l) = [] \<and> g_getenv sample_launcher_env ''DINGHY_URL'' = Some ?u"
    and d: "\<not> (g_file_is_native (g_file_new_for_commandline_arg sample_launcher_env ?u)
         \<and> g_file_query_exists (g_file_new_for_commandline_arg sample_launcher_env ?u))"
    and e: "g_locale_to_utf8 sample_launcher_env ?u = Inr ?u"
    by (simp_all add: sample_launcher_def sample_launcher_env_def)
  show ?thesis
    using d e other_value_is_converted [OF a b c d e]
    by (simp add: sample_launcher_def sample_launcher_env_def)
qed

subsection \<open>The version flag\<close>

text \<open>
  Claim C9. With \<open>--version\<close> the handler writes the version string and a newline to
  standard output and nothing else, returns 0, which ends the process with status 0 before
  the application starts, and leaves the URL and the options as they were.
\<close>

theorem version_prints_and_exits:
  "version (options l) \<Longrightarrow>
     on_handle_local_options env l = (0, l\<lparr>stdout := stdout l @ DY_VERSION_STRING env @ [CHR 0x0A]\<rparr>)
     \<and> g_application_exit_status (fst (on_handle_local_options env l)) = Some 0"
  by (simp add: on_handle_local_options_def EXIT_SUCCESS_def g_print_def newline_def
      g_application_exit_status_def)

text \<open>Claim C9 at the sample launcher, whose version string is 0.1.0.\<close>

theorem version_prints_and_exits_witness:
  "version (options (sample_launcher True False [])) \<and>
   on_handle_local_options sample_launcher_env (sample_launcher True False []) =
     (0, \<lparr>options = \<lparr>version = True, print_appid = False, arguments = []\<rparr>,
          home_uri = None, stdout = ''0.1.0'' @ [CHR 0x0A], stderr = []\<rparr>)"
proof -
  have v: "version (options (sample_launcher True False []))"
    by (simp add: sample_launcher_def)
  show ?thesis
    using v version_prints_and_exits [OF v, of sample_launcher_env]
    by (simp add: sample_launcher_def sample_launcher_env_def)
qed

end
